theory Spec2Isabelle
  imports Main "HOL-Library.Char_ord"
begin

section \<open>The relational schema of \<open>src/db/schema.ts\<close>\<close>

text \<open>
  The schema file declares eight tables, their columns, their indexes and their
  foreign keys. The rows are records with the columns of the source, a nullable column
  is an \<open>option\<close>, and a table is the list of its rows in insertion order (a list,
  not a set: whether two equal keys can be stored is exactly what the unique indexes
  decide).
\<close>

type_synonym timestamp = int

datatype roleEnum = student | teacher | admin

datatype classStatusEnum = active | inactive | archived

datatype json =
    JNull
  | JBool bool
  | JNum int
  | JStr string
  | JArr "json list"
  | JObj "(string \<times> json) list"

record user_row =
  user_id :: string
  user_name :: string
  user_email :: string
  user_emailVerified :: bool
  user_image :: "string option"
  user_role :: roleEnum
  user_imageCldPubId :: "string option"
  user_createdAt :: timestamp
  user_updatedAt :: timestamp

record session_row =
  session_id :: string
  session_userId :: string
  session_token :: string
  session_expiresAt :: timestamp
  session_ipAddress :: "string option"
  session_userAgent :: "string option"
  session_createdAt :: timestamp
  session_updatedAt :: timestamp

record account_row =
  account_id :: string
  account_userId :: string
  account_accountId :: string
  account_providerId :: string
  account_accessToken :: "string option"
  account_refreshToken :: "string option"
  account_accessTokenExpiresAt :: "timestamp option"
  account_refreshTokenExpiresAt :: "timestamp option"
  account_scope :: "string option"
  account_idToken :: "string option"
  account_password :: "string option"
  account_createdAt :: timestamp
  account_updatedAt :: timestamp

record verification_row =
  verification_id :: string
  verification_identifier :: string
  verification_value :: string
  verification_expiresAt :: timestamp
  verification_createdAt :: timestamp
  verification_updatedAt :: timestamp

record departments_row =
  departments_id :: int
  departments_code :: string
  departments_name :: string
  departments_description :: "string option"
  departments_createdAt :: timestamp
  departments_updatedAt :: timestamp

record subjects_row =
  subjects_id :: int
  subjects_departmentId :: int
  subjects_name :: string
  subjects_code :: string
  subjects_description :: "string option"
  subjects_createdAt :: timestamp
  subjects_updatedAt :: timestamp

record classes_row =
  classes_id :: int
  classes_subjectId :: int
  classes_teacherId :: string
  classes_inviteCode :: string
  classes_name :: string
  classes_bannerCldPubId :: "string option"
  classes_bannerUrl :: "string option"
  classes_capacity :: int
  classes_description :: "string option"
  classes_status :: classStatusEnum
  classes_schedules :: "json list"
  classes_createdAt :: timestamp
  classes_updatedAt :: timestamp

record enrollments_row =
  enrollments_id :: int
  enrollments_studentId :: string
  enrollments_classId :: int
  enrollments_createdAt :: timestamp
  enrollments_updatedAt :: timestamp

record store =
  user :: "user_row list"
  session :: "session_row list"
  account :: "account_row list"
  verification :: "verification_row list"
  departments :: "departments_row list"
  subjects :: "subjects_row list"
  classes :: "classes_row list"
  enrollments :: "enrollments_row list"

definition empty_store :: store where
  "empty_store = \<lparr>user = [], session = [], account = [], verification = [],
     departments = [], subjects = [], classes = [], enrollments = []\<rparr>"

subsection \<open>Indexes and key constraints, as declared\<close>

text \<open>
  Every key constraint and index of the schema, under the name the database gives it,
  with the way the source declares it: \<open>.primaryKey()\<close>, \<open>.unique()\<close>,
  \<open>uniqueIndex(...)\<close> or \<open>index(...)\<close>. Only the first three make the database
  reject a second row with the same key; a plain \<open>index\<close> is a lookup structure and
  rejects nothing.
\<close>

datatype index_name =
    user_pkey
  | session_pkey
  | session_user_id_idx
  | session_token_unique
  | account_pkey
  | account_user_id_idx
  | account_provider_account_unique
  | verification_pkey
  | verification_identifier_idx
  | departments_pkey
  | departments_code_unique
  | subjects_pkey
  | subjects_code_unique
  | classes_pkey
  | classes_invite_code_unique
  | classes_subject_id_idx
  | classes_teacher_id_idx
  | enrollments_pkey
  | enrollments_student_id_idx
  | enrollments_class_id_idx
  | enrollments_student_class_unique

datatype index_kind = PrimaryKey | Unique | UniqueIndex | Index

fun declared :: "index_name \<Rightarrow> index_kind" where
  "declared user_pkey = PrimaryKey"
| "declared session_pkey = PrimaryKey"
| "declared session_user_id_idx = Index"
| "declared session_token_unique = UniqueIndex"
| "declared account_pkey = PrimaryKey"
| "declared account_user_id_idx = Index"
| "declared account_provider_account_unique = UniqueIndex"
| "declared verification_pkey = PrimaryKey"
| "declared verification_identifier_idx = Index"
| "declared departments_pkey = PrimaryKey"
| "declared departments_code_unique = Unique"
| "declared subjects_pkey = PrimaryKey"
| "declared subjects_code_unique = Unique"
| "declared classes_pkey = PrimaryKey"
| "declared classes_invite_code_unique = Unique"
| "declared classes_subject_id_idx = Index"
| "declared classes_teacher_id_idx = Index"
| "declared enrollments_pkey = PrimaryKey"
| "declared enrollments_student_id_idx = Index"
| "declared enrollments_class_id_idx = Index"
| "declared enrollments_student_class_unique = Index"

fun enforces_unique :: "index_kind \<Rightarrow> bool" where
  "enforces_unique PrimaryKey = True"
| "enforces_unique Unique = True"
| "enforces_unique UniqueIndex = True"
| "enforces_unique Index = False"

text \<open>
  \<open>violates i k ks\<close>: storing a row with key \<open>k\<close> under index \<open>i\<close>, whose keys so far
  are \<open>ks\<close>, is refused.
\<close>

definition violates :: "index_name \<Rightarrow> 'k \<Rightarrow> 'k list \<Rightarrow> bool" where
  "violates i k ks = (enforces_unique (declared i) \<and> k \<in> set ks)"

subsection \<open>Foreign keys, as declared\<close>

text \<open>
  The seven \<open>.references(...)\<close> of the schema with their \<open>onDelete\<close> option. The two
  references of the authentication tables give no option, which is the database's
  default \<open>NO ACTION\<close>.
\<close>

datatype foreign_key =
    session_userId_fk
  | account_userId_fk
  | subjects_departmentId_fk
  | classes_subjectId_fk
  | classes_teacherId_fk
  | enrollments_studentId_fk
  | enrollments_classId_fk

datatype on_delete = NoAction | Restrict | Cascade

fun onDelete :: "foreign_key \<Rightarrow> on_delete" where
  "onDelete session_userId_fk = NoAction"
| "onDelete account_userId_fk = NoAction"
| "onDelete subjects_departmentId_fk = Restrict"
| "onDelete classes_subjectId_fk = Cascade"
| "onDelete classes_teacherId_fk = Restrict"
| "onDelete enrollments_studentId_fk = Cascade"
| "onDelete enrollments_classId_fk = Cascade"

subsection \<open>Column types and statement results\<close>

text \<open>
  A statement either fails with the database's error, and then the store stays as it
  was, or yields the next store. \<open>store_after\<close> is the store a statement leaves behind.
\<close>

datatype error =
    StringDataRightTruncation
  | NumericValueOutOfRange
  | UniqueViolation index_name
  | ForeignKeyViolation foreign_key

definition store_after :: "error + store \<Rightarrow> store \<Rightarrow> store" where
  "store_after r s = (case r of Inl e \<Rightarrow> s | Inr s' \<Rightarrow> s')"

definition and_then :: "error + store \<Rightarrow> (store \<Rightarrow> error + store) \<Rightarrow> error + store" where
  "and_then r f = (case r of Inl e \<Rightarrow> Inl e | Inr s \<Rightarrow> f s)"

definition varchar :: "nat \<Rightarrow> string \<Rightarrow> bool" where
  "varchar n v = (length v \<le> n)"

definition integer :: "int \<Rightarrow> bool" where
  "integer v = (- 2147483648 \<le> v \<and> v \<le> 2147483647)"

definition or_default :: "'a option \<Rightarrow> 'a \<Rightarrow> 'a" where
  "or_default v d = (case v of None \<Rightarrow> d | Some x \<Rightarrow> x)"


section \<open>Inserting rows\<close>

text \<open>
  The values of an \<open>INSERT\<close> are the table's \<open>$inferInsert\<close> type: a column with a
  default or without \<open>.notNull()\<close> may be left out (\<open>None\<close>), every other column is
  required. The \<open>id\<close> of a table with \<open>generatedAlwaysAsIdentity()\<close> is not among
  them: it is the value \<open>gen\<close> that the table's identity sequence hands out. \<open>now\<close> is
  the database's clock, for \<open>defaultNow()\<close>.

  The database checks a new row in this order: the column types (\<open>varchar\<close> lengths,
  the \<open>integer\<close> range), the primary key, the other unique indexes in the order of
  their declaration, and last the foreign keys.
\<close>

record NewUser =
  new_user_id :: string
  new_user_name :: string
  new_user_email :: string
  new_user_emailVerified :: bool
  new_user_image :: "string option"
  new_user_role :: "roleEnum option"
  new_user_imageCldPubId :: "string option"
  new_user_createdAt :: "timestamp option"
  new_user_updatedAt :: "timestamp option"

record NewSession =
  new_session_id :: string
  new_session_userId :: string
  new_session_token :: string
  new_session_expiresAt :: timestamp
  new_session_ipAddress :: "string option"
  new_session_userAgent :: "string option"
  new_session_createdAt :: "timestamp option"
  new_session_updatedAt :: "timestamp option"

record NewDepartment =
  new_departments_code :: string
  new_departments_name :: string
  new_departments_description :: "string option"
  new_departments_createdAt :: "timestamp option"
  new_departments_updatedAt :: "timestamp option"

record NewSubject =
  new_subjects_departmentId :: int
  new_subjects_name :: string
  new_subjects_code :: string
  new_subjects_description :: "string option"
  new_subjects_createdAt :: "timestamp option"
  new_subjects_updatedAt :: "timestamp option"

record NewClass =
  new_classes_subjectId :: int
  new_classes_teacherId :: string
  new_classes_inviteCode :: string
  new_classes_name :: string
  new_classes_bannerCldPubId :: "string option"
  new_classes_bannerUrl :: "string option"
  new_classes_capacity :: "int option"
  new_classes_description :: "string option"
  new_classes_status :: "classStatusEnum option"
  new_classes_schedules :: "json list"
  new_classes_createdAt :: "timestamp option"
  new_classes_updatedAt :: "timestamp option"

record NewEnrollment =
  new_enrollments_studentId :: string
  new_enrollments_classId :: int
  new_enrollments_createdAt :: "timestamp option"
  new_enrollments_updatedAt :: "timestamp option"

definition user_of :: "timestamp \<Rightarrow> NewUser \<Rightarrow> user_row" where
  "user_of now v =
     \<lparr>user_id = new_user_id v,
      user_name = new_user_name v,
      user_email = new_user_email v,
      user_emailVerified = new_user_emailVerified v,
      user_image = new_user_image v,
      user_role = or_default (new_user_role v) student,
      user_imageCldPubId = new_user_imageCldPubId v,
      user_createdAt = or_default (new_user_createdAt v) now,
      user_updatedAt = or_default (new_user_updatedAt v) now\<rparr>"

definition insert_user :: "timestamp \<Rightarrow> NewUser \<Rightarrow> store \<Rightarrow> error + store" where
  "insert_user now v s =
     (if violates user_pkey (new_user_id v) (map user_id (user s))
      then Inl (UniqueViolation user_pkey)
      else Inr (s\<lparr>user := user s @ [user_of now v]\<rparr>))"

definition session_of :: "timestamp \<Rightarrow> NewSession \<Rightarrow> session_row" where
  "session_of now v =
     \<lparr>session_id = new_session_id v,
      session_userId = new_session_userId v,
      session_token = new_session_token v,
      session_expiresAt = new_session_expiresAt v,
      session_ipAddress = new_session_ipAddress v,
      session_userAgent = new_session_userAgent v,
      session_createdAt = or_default (new_session_createdAt v) now,
      session_updatedAt = or_default (new_session_updatedAt v) now\<rparr>"

definition insert_session :: "timestamp \<Rightarrow> NewSession \<Rightarrow> store \<Rightarrow> error + store" where
  "insert_session now v s =
     (if violates session_pkey (new_session_id v) (map session_id (session s))
      then Inl (UniqueViolation session_pkey)
      else if violates session_token_unique (new_session_token v)
                (map session_token (session s))
      then Inl (UniqueViolation session_token_unique)
      else if new_session_userId v \<notin> set (map user_id (user s))
      then Inl (ForeignKeyViolation session_userId_fk)
      else Inr (s\<lparr>session := session s @ [session_of now v]\<rparr>))"

definition departments_of :: "int \<Rightarrow> timestamp \<Rightarrow> NewDepartment \<Rightarrow> departments_row" where
  "departments_of gen now v =
     \<lparr>departments_id = gen,
      departments_code = new_departments_code v,
      departments_name = new_departments_name v,
      departments_description = new_departments_description v,
      departments_createdAt = or_default (new_departments_createdAt v) now,
      departments_updatedAt = or_default (new_departments_updatedAt v) now\<rparr>"

definition insert_departments ::
  "int \<Rightarrow> timestamp \<Rightarrow> NewDepartment \<Rightarrow> store \<Rightarrow> error + store" where
  "insert_departments gen now v s =
     (if \<not> (varchar 50 (new_departments_code v) \<and> varchar 255 (new_departments_name v))
      then Inl StringDataRightTruncation
      else if violates departments_pkey gen (map departments_id (departments s))
      then Inl (UniqueViolation departments_pkey)
      else if violates departments_code_unique (new_departments_code v)
                (map departments_code (departments s))
      then Inl (UniqueViolation departments_code_unique)
      else Inr (s\<lparr>departments := departments s @ [departments_of gen now v]\<rparr>))"

definition subjects_of :: "int \<Rightarrow> timestamp \<Rightarrow> NewSubject \<Rightarrow> subjects_row" where
  "subjects_of gen now v =
     \<lparr>subjects_id = gen,
      subjects_departmentId = new_subjects_departmentId v,
      subjects_name = new_subjects_name v,
      subjects_code = new_subjects_code v,
      subjects_description = new_subjects_description v,
      subjects_createdAt = or_default (new_subjects_createdAt v) now,
      subjects_updatedAt = or_default (new_subjects_updatedAt v) now\<rparr>"

definition insert_subjects ::
  "int \<Rightarrow> timestamp \<Rightarrow> NewSubject \<Rightarrow> store \<Rightarrow> error + store" where
  "insert_subjects gen now v s =
     (if \<not> integer (new_subjects_departmentId v)
      then Inl NumericValueOutOfRange
      else if \<not> (varchar 255 (new_subjects_name v) \<and> varchar 50 (new_subjects_code v))
      then Inl StringDataRightTruncation
      else if violates subjects_pkey gen (map subjects_id (subjects s))
      then Inl (UniqueViolation subjects_pkey)
      else if violates subjects_code_unique (new_subjects_code v)
                (map subjects_code (subjects s))
      then Inl (UniqueViolation subjects_code_unique)
      else if new_subjects_departmentId v \<notin> set (map departments_id (departments s))
      then Inl (ForeignKeyViolation subjects_departmentId_fk)
      else Inr (s\<lparr>subjects := subjects s @ [subjects_of gen now v]\<rparr>))"

definition classes_of :: "int \<Rightarrow> timestamp \<Rightarrow> NewClass \<Rightarrow> classes_row" where
  "classes_of gen now v =
     \<lparr>classes_id = gen,
      classes_subjectId = new_classes_subjectId v,
      classes_teacherId = new_classes_teacherId v,
      classes_inviteCode = new_classes_inviteCode v,
      classes_name = new_classes_name v,
      classes_bannerCldPubId = new_classes_bannerCldPubId v,
      classes_bannerUrl = new_classes_bannerUrl v,
      classes_capacity = or_default (new_classes_capacity v) 50,
      classes_description = new_classes_description v,
      classes_status = or_default (new_classes_status v) active,
      classes_schedules = new_classes_schedules v,
      classes_createdAt = or_default (new_classes_createdAt v) now,
      classes_updatedAt = or_default (new_classes_updatedAt v) now\<rparr>"

definition insert_classes ::
  "int \<Rightarrow> timestamp \<Rightarrow> NewClass \<Rightarrow> store \<Rightarrow> error + store" where
  "insert_classes gen now v s =
     (if \<not> (integer (new_classes_subjectId v)
             \<and> integer (or_default (new_classes_capacity v) 50))
      then Inl NumericValueOutOfRange
      else if \<not> (varchar 50 (new_classes_inviteCode v) \<and> varchar 255 (new_classes_name v))
      then Inl StringDataRightTruncation
      else if violates classes_pkey gen (map classes_id (classes s))
      then Inl (UniqueViolation classes_pkey)
      else if violates classes_invite_code_unique (new_classes_inviteCode v)
                (map classes_inviteCode (classes s))
      then Inl (UniqueViolation classes_invite_code_unique)
      else if new_classes_subjectId v \<notin> set (map subjects_id (subjects s))
      then Inl (ForeignKeyViolation classes_subjectId_fk)
      else if new_classes_teacherId v \<notin> set (map user_id (user s))
      then Inl (ForeignKeyViolation classes_teacherId_fk)
      else Inr (s\<lparr>classes := classes s @ [classes_of gen now v]\<rparr>))"

definition enrollments_of :: "int \<Rightarrow> timestamp \<Rightarrow> NewEnrollment \<Rightarrow> enrollments_row" where
  "enrollments_of gen now v =
     \<lparr>enrollments_id = gen,
      enrollments_studentId = new_enrollments_studentId v,
      enrollments_classId = new_enrollments_classId v,
      enrollments_createdAt = or_default (new_enrollments_createdAt v) now,
      enrollments_updatedAt = or_default (new_enrollments_updatedAt v) now\<rparr>"

definition insert_enrollments ::
  "int \<Rightarrow> timestamp \<Rightarrow> NewEnrollment \<Rightarrow> store \<Rightarrow> error + store" where
  "insert_enrollments gen now v s =
     (if \<not> integer (new_enrollments_classId v)
      then Inl NumericValueOutOfRange
      else if violates enrollments_pkey gen (map enrollments_id (enrollments s))
      then Inl (UniqueViolation enrollments_pkey)
      else if violates enrollments_student_class_unique
                (new_enrollments_studentId v, new_enrollments_classId v)
                (map (\<lambda>e. (enrollments_studentId e, enrollments_classId e)) (enrollments s))
      then Inl (UniqueViolation enrollments_student_class_unique)
      else if new_enrollments_studentId v \<notin> set (map user_id (user s))
      then Inl (ForeignKeyViolation enrollments_studentId_fk)
      else if new_enrollments_classId v \<notin> set (map classes_id (classes s))
      then Inl (ForeignKeyViolation enrollments_classId_fk)
      else Inr (s\<lparr>enrollments := enrollments s @ [enrollments_of gen now v]\<rparr>))"

section \<open>Deleting rows\<close>

text \<open>
  \<open>DELETE FROM t WHERE id = x\<close>. When no row has the id, nothing is deleted and the
  statement succeeds. Otherwise every foreign key that references \<open>t\<close> is applied with
  its declared action. \<open>referential fk referenced cascaded s\<close> is that step for one
  foreign key: \<open>referenced\<close> says whether a child row points at the deleted parent, and
  \<open>cascaded\<close> is the result of deleting those child rows (with their own foreign keys
  applied in turn).
\<close>

definition referential ::
  "foreign_key \<Rightarrow> bool \<Rightarrow> error + store \<Rightarrow> store \<Rightarrow> error + store" where
  "referential fk referenced cascaded s =
     (case onDelete fk of
        Cascade \<Rightarrow> cascaded
      | Restrict \<Rightarrow> if referenced then Inl (ForeignKeyViolation fk) else Inr s
      | NoAction \<Rightarrow> if referenced then Inl (ForeignKeyViolation fk) else Inr s)"

text \<open>Nothing references an enrollment, so deleting enrollments cannot fail.\<close>

definition delete_enrollments_where :: "(enrollments_row \<Rightarrow> bool) \<Rightarrow> store \<Rightarrow> store" where
  "delete_enrollments_where p s =
     s\<lparr>enrollments := filter (\<lambda>e. \<not> p e) (enrollments s)\<rparr>"

text \<open>Classes are referenced by \<open>enrollments.classId\<close>.\<close>

definition delete_classes_where :: "(classes_row \<Rightarrow> bool) \<Rightarrow> store \<Rightarrow> error + store" where
  "delete_classes_where p s =
     (let ids = map classes_id (filter p (classes s)) in
      and_then
        (referential enrollments_classId_fk
           (\<exists>e \<in> set (enrollments s). enrollments_classId e \<in> set ids)
           (Inr (delete_enrollments_where (\<lambda>e. enrollments_classId e \<in> set ids) s)) s)
        (\<lambda>s1. Inr (s1\<lparr>classes := filter (\<lambda>c. \<not> p c) (classes s1)\<rparr>)))"

text \<open>Subjects are referenced by \<open>classes.subjectId\<close>.\<close>

definition delete_subjects_where :: "(subjects_row \<Rightarrow> bool) \<Rightarrow> store \<Rightarrow> error + store" where
  "delete_subjects_where p s =
     (let ids = map subjects_id (filter p (subjects s)) in
      and_then
        (referential classes_subjectId_fk
           (\<exists>c \<in> set (classes s). classes_subjectId c \<in> set ids)
           (delete_classes_where (\<lambda>c. classes_subjectId c \<in> set ids) s) s)
        (\<lambda>s1. Inr (s1\<lparr>subjects := filter (\<lambda>r. \<not> p r) (subjects s1)\<rparr>)))"

definition delete_subject :: "int \<Rightarrow> store \<Rightarrow> error + store" where
  "delete_subject sid s = delete_subjects_where (\<lambda>r. subjects_id r = sid) s"

text \<open>Departments are referenced by \<open>subjects.departmentId\<close>.\<close>

definition delete_departments_where ::
  "(departments_row \<Rightarrow> bool) \<Rightarrow> store \<Rightarrow> error + store" where
  "delete_departments_where p s =
     (let ids = map departments_id (filter p (departments s)) in
      and_then
        (referential subjects_departmentId_fk
           (\<exists>r \<in> set (subjects s). subjects_departmentId r \<in> set ids)
           (delete_subjects_where (\<lambda>r. subjects_departmentId r \<in> set ids) s) s)
        (\<lambda>s1. Inr (s1\<lparr>departments := filter (\<lambda>d. \<not> p d) (departments s1)\<rparr>)))"

definition delete_department :: "int \<Rightarrow> store \<Rightarrow> error + store" where
  "delete_department did s = delete_departments_where (\<lambda>d. departments_id d = did) s"

text \<open>
  Users are referenced by \<open>session.userId\<close>, \<open>account.userId\<close>,
  \<open>classes.teacherId\<close> and \<open>enrollments.studentId\<close>. The database applies these
  references one after the other and reports the first that holds the delete back.
  The schema does not say in which order: it is the order in which the constraints
  were created in the database, so it is a parameter, \<open>order\<close>. A reference that
  \<open>order\<close> leaves out is applied after it, in the order of the declarations.
\<close>

definition delete_session_where :: "(session_row \<Rightarrow> bool) \<Rightarrow> store \<Rightarrow> store" where
  "delete_session_where p s = s\<lparr>session := filter (\<lambda>x. \<not> p x) (session s)\<rparr>"

definition delete_account_where :: "(account_row \<Rightarrow> bool) \<Rightarrow> store \<Rightarrow> store" where
  "delete_account_where p s = s\<lparr>account := filter (\<lambda>x. \<not> p x) (account s)\<rparr>"

definition user_references :: "foreign_key list" where
  "user_references =
     [session_userId_fk, account_userId_fk, classes_teacherId_fk, enrollments_studentId_fk]"

text \<open>\<open>user_referenced fk ids s\<close>: a child row of \<open>fk\<close> points at one of the users \<open>ids\<close>.\<close>

fun user_referenced :: "foreign_key \<Rightarrow> string list \<Rightarrow> store \<Rightarrow> bool" where
  "user_referenced session_userId_fk ids s =
     (\<exists>x \<in> set (session s). session_userId x \<in> set ids)"
| "user_referenced account_userId_fk ids s =
     (\<exists>x \<in> set (account s). account_userId x \<in> set ids)"
| "user_referenced classes_teacherId_fk ids s =
     (\<exists>c \<in> set (classes s). classes_teacherId c \<in> set ids)"
| "user_referenced enrollments_studentId_fk ids s =
     (\<exists>e \<in> set (enrollments s). enrollments_studentId e \<in> set ids)"
| "user_referenced subjects_departmentId_fk ids s = False"
| "user_referenced classes_subjectId_fk ids s = False"
| "user_referenced enrollments_classId_fk ids s = False"

text \<open>\<open>user_cascaded fk ids s\<close>: the child rows of \<open>fk\<close> that point at \<open>ids\<close> deleted.\<close>

fun user_cascaded :: "foreign_key \<Rightarrow> string list \<Rightarrow> store \<Rightarrow> error + store" where
  "user_cascaded session_userId_fk ids s =
     Inr (delete_session_where (\<lambda>x. session_userId x \<in> set ids) s)"
| "user_cascaded account_userId_fk ids s =
     Inr (delete_account_where (\<lambda>x. account_userId x \<in> set ids) s)"
| "user_cascaded classes_teacherId_fk ids s =
     delete_classes_where (\<lambda>c. classes_teacherId c \<in> set ids) s"
| "user_cascaded enrollments_studentId_fk ids s =
     Inr (delete_enrollments_where (\<lambda>e. enrollments_studentId e \<in> set ids) s)"
| "user_cascaded subjects_departmentId_fk ids s = Inr s"
| "user_cascaded classes_subjectId_fk ids s = Inr s"
| "user_cascaded enrollments_classId_fk ids s = Inr s"

fun apply_user_references :: "foreign_key list \<Rightarrow> string list \<Rightarrow> store \<Rightarrow> error + store" where
  "apply_user_references [] ids s = Inr s"
| "apply_user_references (fk # fks) ids s =
     and_then (referential fk (user_referenced fk ids s) (user_cascaded fk ids s) s)
       (apply_user_references fks ids)"

definition delete_user_where ::
  "foreign_key list \<Rightarrow> (user_row \<Rightarrow> bool) \<Rightarrow> store \<Rightarrow> error + store" where
  "delete_user_where order p s =
     (let ids = map user_id (filter p (user s)) in
      and_then (apply_user_references (order @ user_references) ids s)
        (\<lambda>s1. Inr (s1\<lparr>user := filter (\<lambda>u. \<not> p u) (user s1)\<rparr>)))"

definition delete_user :: "foreign_key list \<Rightarrow> string \<Rightarrow> store \<Rightarrow> error + store" where
  "delete_user order uid s = delete_user_where order (\<lambda>u. user_id u = uid) s"

section \<open>The request pipeline of the server entry file\<close>

text \<open>
  The entry file registers handlers on the Express application in a fixed order. A
  request walks the registered layers in that order; a layer whose path matches runs
  its handler, and the walk goes on only if the handler calls \<open>next()\<close>.

  What the library middlewares (\<open>cors\<close>, \<open>express.json\<close>), the security middleware
  and the subjects router do with a request is not in these files, so each is a
  parameter: a function that says whether the handler passes the request on or ends
  it. The handler made by \<open>toNodeHandler(auth)\<close> is a Node listener \<open>(req, res)\<close>: it has
  no \<open>next\<close> to call.
\<close>

record request =
  req_method :: string
  req_path :: string

datatype stage = Cors | AuthHandler | JsonParser | SecurityMiddleware | SubjectsRouter

datatype handled = CallsNext | Responds

record middlewares =
  cors :: "request \<Rightarrow> handled"
  express_json :: "request \<Rightarrow> handled"
  securityMiddleware :: "request \<Rightarrow> handled"
  subjectsRouter :: "request \<Rightarrow> handled"

fun run_handler :: "middlewares \<Rightarrow> stage \<Rightarrow> request \<Rightarrow> handled" where
  "run_handler m Cors r = cors m r"
| "run_handler m AuthHandler r = Responds"
| "run_handler m JsonParser r = express_json m r"
| "run_handler m SecurityMiddleware r = securityMiddleware m r"
| "run_handler m SubjectsRouter r = subjectsRouter m r"

text \<open>
  How a layer is registered: \<open>app.use(handler)\<close> matches every path,
  \<open>app.use(path, handler)\<close> matches the path and everything below it, and
  \<open>app.all(path, handler)\<close> matches the whole path against a pattern, in which
  \<open>*name\<close> stands for one or more characters. Paths are compared without regard to
  case.
\<close>

datatype registration = Use | UseAt string | All string

definition lower :: "char \<Rightarrow> char" where
  "lower c = (if CHR ''A'' \<le> c \<and> c \<le> CHR ''Z'' then char_of (of_char c + (32::nat)) else c)"

definition mount_match :: "string \<Rightarrow> string \<Rightarrow> bool" where
  "mount_match p path =
     (let q = map lower path; m = map lower p in
      q = m \<or> take (length m + 1) q = m @ ''/'')"

definition route_match :: "string \<Rightarrow> string \<Rightarrow> bool" where
  "route_match pat path =
     (let q = map lower path;
          pre = map lower (takeWhile (\<lambda>c. c \<noteq> CHR ''*'') pat) in
      if length pre = length pat then q = pre \<or> q = pre @ ''/''
      else take (length pre) q = pre \<and> length pre < length q)"

text \<open>
  Express decodes what the wildcard of a route captured with \<open>decodeURIComponent\<close>,
  which fails on a \<open>%\<close> that is not followed by two hexadecimal digits and on escaped
  octets that are not the UTF-8 encoding of a code point. \<open>escapes\<close> reads a run of
  \<open>%XX\<close> groups, \<open>utf8_length\<close> is the number of octets a leading octet announces (0
  when it cannot lead), and \<open>valid_utf8 b bs\<close> says that the leading octet \<open>b\<close> with
  the octets \<open>bs\<close> after it encodes a code point.
\<close>

definition hex_digit :: "char \<Rightarrow> nat option" where
  "hex_digit c =
     (let n = (of_char c :: nat) in
      if 48 \<le> n \<and> n \<le> 57 then Some (n - 48)
      else if 65 \<le> n \<and> n \<le> 70 then Some (n - 55)
      else if 97 \<le> n \<and> n \<le> 102 then Some (n - 87)
      else None)"

fun escapes :: "string \<Rightarrow> nat list option" where
  "escapes [] = Some []"
| "escapes (p # h # l # rest) =
     (if p = CHR ''%''
      then (case (hex_digit h, hex_digit l, escapes rest) of
              (Some a, Some b, Some bs) \<Rightarrow> Some ((16 * a + b) # bs)
            | _ \<Rightarrow> None)
      else None)"
| "escapes _ = None"

definition utf8_length :: "nat \<Rightarrow> nat" where
  "utf8_length b =
     (if b < 192 then 0 else if b < 224 then 2 else if b < 240 then 3
      else if b < 248 then 4 else 0)"

definition valid_utf8 :: "nat \<Rightarrow> nat list \<Rightarrow> bool" where
  "valid_utf8 b bs =
     (list_all (\<lambda>c. 128 \<le> c \<and> c < 192) bs \<and>
      (case bs of
         [c] \<Rightarrow> 194 \<le> b \<and> b \<le> 223
       | [c, d] \<Rightarrow> (b = 224 \<and> 160 \<le> c) \<or> (225 \<le> b \<and> b \<le> 236)
                    \<or> (b = 237 \<and> c < 160) \<or> (238 \<le> b \<and> b \<le> 239)
       | [c, d, e] \<Rightarrow> (b = 240 \<and> 144 \<le> c) \<or> (241 \<le> b \<and> b \<le> 243)
                    \<or> (b = 244 \<and> c < 144)
       | _ \<Rightarrow> False))"

fun decodable :: "string \<Rightarrow> bool" where
  "decodable [] = True"
| "decodable (c # cs) =
     (if c \<noteq> CHR ''%'' then decodable cs
      else (case cs of
              h # l # rest \<Rightarrow>
                (case (hex_digit h, hex_digit l) of
                   (Some a, Some b) \<Rightarrow>
                     if 16 * a + b < 128 then decodable rest
                     else (let n = utf8_length (16 * a + b) in
                           case escapes (take (3 * (n - 1)) rest) of
                             Some bs \<Rightarrow>
                               n \<noteq> 0 \<and> length bs = n - 1 \<and> valid_utf8 (16 * a + b) bs
                               \<and> decodable (drop (3 * (n - 1)) rest)
                           | None \<Rightarrow> False)
                 | _ \<Rightarrow> False)
            | _ \<Rightarrow> False))"

definition wildcard_part :: "string \<Rightarrow> string \<Rightarrow> string" where
  "wildcard_part pat path = drop (length (takeWhile (\<lambda>c. c \<noteq> CHR ''*'') pat)) path"

text \<open>
  A layer matches a request, does not match it, or matches it with a wildcard part
  that cannot be decoded. In the last case Express raises an error with status 400;
  the handlers registered after the layer are ordinary handlers of three arguments,
  which a pending error skips, so the request is answered 400 and no further handler
  runs.
\<close>

datatype matched = Matches | NoMatch | DecodeFails

fun layer_match :: "registration \<Rightarrow> request \<Rightarrow> matched" where
  "layer_match Use r = Matches"
| "layer_match (UseAt p) r = (if mount_match p (req_path r) then Matches else NoMatch)"
| "layer_match (All pat) r =
     (if route_match pat (req_path r)
      then (if decodable (wildcard_part pat (req_path r)) then Matches else DecodeFails)
      else NoMatch)"

text \<open>\<open>dispatch\<close> returns the handlers a request runs, in the order it runs them.\<close>

fun dispatch :: "middlewares \<Rightarrow> (registration \<times> stage) list \<Rightarrow> request \<Rightarrow> stage list" where
  "dispatch m [] r = []"
| "dispatch m ((reg, h) # ls) r =
     (case layer_match reg r of
        Matches \<Rightarrow>
          h # (case run_handler m h r of CallsNext \<Rightarrow> dispatch m ls r | Responds \<Rightarrow> [])
      | NoMatch \<Rightarrow> dispatch m ls r
      | DecodeFails \<Rightarrow> [])"

text \<open>
  The application of the entry file that imports \<open>toNodeHandler\<close> and mounts the
  authentication handler.
\<close>

definition app :: "(registration \<times> stage) list" where
  "app =
     [(Use, Cors),
      (All ''/api/auth/*splat'', AuthHandler),
      (Use, JsonParser),
      (Use, SecurityMiddleware),
      (UseAt ''/api/subjects'', SubjectsRouter)]"

text \<open>The application of \<open>src/index.ts\<close>, which registers no authentication handler.\<close>

definition app_index :: "(registration \<times> stage) list" where
  "app_index =
     [(Use, Cors),
      (Use, JsonParser),
      (Use, SecurityMiddleware),
      (UseAt ''/api/subjects'', SubjectsRouter)]"


section \<open>A small store to run the statements on\<close>

text \<open>
  One student, one teacher, one department with one subject, and one class of that
  subject taught by the teacher.
\<close>

definition alice :: NewUser where
  "alice = \<lparr>new_user_id = ''u1'', new_user_name = ''Alice'',
     new_user_email = ''alice@example.org'', new_user_emailVerified = True,
     new_user_image = None, new_user_role = None, new_user_imageCldPubId = None,
     new_user_createdAt = None, new_user_updatedAt = None\<rparr>"

definition bob :: NewUser where
  "bob = \<lparr>new_user_id = ''t1'', new_user_name = ''Bob'',
     new_user_email = ''bob@example.org'', new_user_emailVerified = True,
     new_user_image = None, new_user_role = Some teacher, new_user_imageCldPubId = None,
     new_user_createdAt = None, new_user_updatedAt = None\<rparr>"

definition maths :: NewDepartment where
  "maths = \<lparr>new_departments_code = ''MATH'', new_departments_name = ''Mathematics'',
     new_departments_description = None, new_departments_createdAt = None,
     new_departments_updatedAt = None\<rparr>"

definition algebra :: NewSubject where
  "algebra = \<lparr>new_subjects_departmentId = 1, new_subjects_name = ''Algebra'',
     new_subjects_code = ''ALG'', new_subjects_description = None,
     new_subjects_createdAt = None, new_subjects_updatedAt = None\<rparr>"

definition algebra_class :: NewClass where
  "algebra_class = \<lparr>new_classes_subjectId = 1, new_classes_teacherId = ''t1'',
     new_classes_inviteCode = ''inv1'', new_classes_name = ''Algebra A'',
     new_classes_bannerCldPubId = None, new_classes_bannerUrl = None,
     new_classes_capacity = None, new_classes_description = None,
     new_classes_status = None, new_classes_schedules = [],
     new_classes_createdAt = None, new_classes_updatedAt = None\<rparr>"

definition alice_in_algebra :: NewEnrollment where
  "alice_in_algebra = \<lparr>new_enrollments_studentId = ''u1'', new_enrollments_classId = 1,
     new_enrollments_createdAt = None, new_enrollments_updatedAt = None\<rparr>"

definition alice_login :: NewSession where
  "alice_login = \<lparr>new_session_id = ''s1'', new_session_userId = ''u1'',
     new_session_token = ''tok1'', new_session_expiresAt = 1000,
     new_session_ipAddress = None, new_session_userAgent = None,
     new_session_createdAt = None, new_session_updatedAt = None\<rparr>"

definition campus :: store where
  "campus = \<lparr>user = [user_of 0 alice, user_of 0 bob], session = [], account = [],
     verification = [], departments = [departments_of 1 0 maths],
     subjects = [subjects_of 1 0 algebra], classes = [classes_of 1 0 algebra_class],
     enrollments = []\<rparr>"

definition campus_enrolled :: store where
  "campus_enrolled = campus\<lparr>enrollments := [enrollments_of 1 0 alice_in_algebra]\<rparr>"

definition campus_logged_in :: store where
  "campus_logged_in = campus\<lparr>session := [session_of 0 alice_login]\<rparr>"

definition bob_account :: account_row where
  "bob_account = \<lparr>account_id = ''a1'', account_userId = ''t1'', account_accountId = ''t1'',
     account_providerId = ''credential'', account_accessToken = None,
     account_refreshToken = None, account_accessTokenExpiresAt = None,
     account_refreshTokenExpiresAt = None, account_scope = None, account_idToken = None,
     account_password = Some ''hash'', account_createdAt = 0, account_updatedAt = 0\<rparr>"

definition campus_with_account :: store where
  "campus_with_account = campus\<lparr>account := [bob_account]\<rparr>"

definition all_pass :: middlewares where
  "all_pass = \<lparr>cors = (\<lambda>r. CallsNext), express_json = (\<lambda>r. CallsNext),
     securityMiddleware = (\<lambda>r. CallsNext), subjectsRouter = (\<lambda>r. Responds)\<rparr>"

section \<open>Properties of the store\<close>

lemmas example_defs = alice_def bob_def maths_def algebra_def algebra_class_def
  alice_in_algebra_def alice_login_def campus_def campus_enrolled_def campus_logged_in_def
  user_of_def session_of_def departments_of_def subjects_of_def classes_of_def
  enrollments_of_def or_default_def bob_account_def campus_with_account_def

text \<open>The example store is what the five inserts build from the empty store.\<close>

lemma campus_reachable:
  "and_then (insert_user 0 alice empty_store) (\<lambda>s.
   and_then (insert_user 0 bob s) (\<lambda>s.
   and_then (insert_departments 1 0 maths s) (\<lambda>s.
   and_then (insert_subjects 1 0 algebra s) (\<lambda>s.
   insert_classes 1 0 algebra_class s)))) = Inr campus"
  by (simp add: example_defs empty_store_def and_then_def insert_user_def
        insert_departments_def insert_subjects_def insert_classes_def violates_def
        varchar_def integer_def)

subsection \<open>Enrollments\<close>

text \<open>
  A second enrollment with a (studentId, classId) pair that is already stored is
  accepted whenever the row is otherwise well formed: the index on the pair is declared
  with \<open>index\<close>, so it rejects nothing.
\<close>

lemma insert_enrollments_same_pair:
  assumes "integer (new_enrollments_classId v)"
      and "gen \<notin> set (map enrollments_id (enrollments s))"
      and "new_enrollments_studentId v \<in> set (map user_id (user s))"
      and "new_enrollments_classId v \<in> set (map classes_id (classes s))"
  shows "insert_enrollments gen now v s
           = Inr (s\<lparr>enrollments := enrollments s @ [enrollments_of gen now v]\<rparr>)"
  using assms by (simp add: insert_enrollments_def violates_def)

text \<open>
  The session table shows what a \<open>uniqueIndex\<close> does: a second session with a stored
  token is refused.
\<close>

lemma insert_session_same_token:
  assumes "new_session_id v \<notin> set (map session_id (session s))"
      and "new_session_token v \<in> set (map session_token (session s))"
  shows "insert_session now v s = Inl (UniqueViolation session_token_unique)"
  using assms by (simp add: insert_session_def violates_def)

text \<open>
  C1. The claim: at most one enrollment row exists per (studentId, classId) pair, the
  store's unique index enforces it, and enrolling the same pair twice leaves one row,
  the second call failing. On the schema as written the two inserts of the same pair
  both succeed and the table ends with two rows for the pair.
\<close>

theorem enrollments_pair_not_unique:
  "insert_enrollments 1 0 alice_in_algebra campus = Inr campus_enrolled
   \<and> insert_enrollments 2 0 alice_in_algebra campus_enrolled
     = Inr (campus\<lparr>enrollments :=
         [enrollments_of 1 0 alice_in_algebra, enrollments_of 2 0 alice_in_algebra]\<rparr>)
   \<and> map (\<lambda>e. (enrollments_studentId e, enrollments_classId e))
       [enrollments_of 1 0 alice_in_algebra, enrollments_of 2 0 alice_in_algebra]
     = [(''u1'', 1), (''u1'', 1)]"
  by (simp add: example_defs insert_enrollments_def violates_def integer_def)

theorem enrollments_pair_not_unique_witness:
  "length (enrollments (store_after
     (insert_enrollments 2 0 alice_in_algebra campus_enrolled) campus_enrolled)) = 2"
  using enrollments_pair_not_unique by (simp add: store_after_def)


subsection \<open>Deletes\<close>

text \<open>Deleting classes, and deleting subjects, written out: both always succeed.\<close>

lemma delete_classes_where_eq:
  "delete_classes_where p s =
     Inr (s\<lparr>enrollments :=
              filter (\<lambda>e. enrollments_classId e \<notin> set (map classes_id (filter p (classes s))))
                (enrollments s),
            classes := filter (\<lambda>c. \<not> p c) (classes s)\<rparr>)"
  by (simp add: delete_classes_where_def referential_def and_then_def
        delete_enrollments_where_def Let_def)

lemma delete_subjects_where_eq:
  "delete_subjects_where p s =
     Inr (s\<lparr>enrollments :=
              filter (\<lambda>e. enrollments_classId e \<notin> set (map classes_id
                (filter (\<lambda>c. classes_subjectId c \<in> set (map subjects_id (filter p (subjects s))))
                  (classes s))))
                (enrollments s),
            classes :=
              filter (\<lambda>c. classes_subjectId c \<notin> set (map subjects_id (filter p (subjects s))))
                (classes s),
            subjects := filter (\<lambda>r. \<not> p r) (subjects s)\<rparr>)"
  by (simp add: delete_subjects_where_def delete_classes_where_eq referential_def
        and_then_def Let_def)

lemma ids_of_existing:
  "x \<in> set (map f rows) \<Longrightarrow> set (map f (filter (\<lambda>r. f r = x) rows)) = {x}"
  by auto

text \<open>
  Deleting a user, for every order of the references. A reference holds the delete
  back when its action is not \<open>cascade\<close> and a row refers to the user; the delete
  fails with the first such reference in the order, and goes through, taking the
  user's enrollments with it, when there is none.
\<close>

lemma referenced_after_cascade:
  "onDelete fk \<noteq> Cascade \<Longrightarrow>
     user_referenced fk ids (delete_enrollments_where q s) = user_referenced fk ids s"
  by (cases fk) (simp_all add: delete_enrollments_where_def)

lemma delete_enrollments_where_twice:
  "delete_enrollments_where q (delete_enrollments_where q s) = delete_enrollments_where q s"
  by (simp add: delete_enrollments_where_def)

lemma apply_one_reference:
  "referential fk (user_referenced fk ids s) (user_cascaded fk ids s) s =
     (if onDelete fk \<noteq> Cascade
      then (if user_referenced fk ids s then Inl (ForeignKeyViolation fk) else Inr s)
      else if fk = enrollments_studentId_fk
        then Inr (delete_enrollments_where (\<lambda>e. enrollments_studentId e \<in> set ids) s)
        else Inr s)"
  by (cases fk) (simp_all add: referential_def)

lemma apply_user_references_eq:
  "apply_user_references fks ids s =
     (case filter (\<lambda>fk. onDelete fk \<noteq> Cascade \<and> user_referenced fk ids s) fks of
        [] \<Rightarrow> Inr (if enrollments_studentId_fk \<in> set fks
                    then delete_enrollments_where (\<lambda>e. enrollments_studentId e \<in> set ids) s
                    else s)
      | fk # rest \<Rightarrow> Inl (ForeignKeyViolation fk))"
proof (induction fks arbitrary: s)
  case Nil
  show ?case by simp
next
  case (Cons fk fks)
  show ?case
  proof (cases "onDelete fk \<noteq> Cascade")
    case True
    then have "fk \<noteq> enrollments_studentId_fk" by auto
    with True Cons show ?thesis
      by (simp add: apply_one_reference and_then_def)
  next
    case False
    show ?thesis
    proof (cases "fk = enrollments_studentId_fk")
      case True
      let ?q = "\<lambda>e. enrollments_studentId e \<in> set ids"
      have step: "apply_user_references (fk # fks) ids s
          = apply_user_references fks ids (delete_enrollments_where ?q s)"
        unfolding apply_user_references.simps apply_one_reference
        using True by (simp add: and_then_def)
      have same: "filter (\<lambda>fk. onDelete fk \<noteq> Cascade
            \<and> user_referenced fk ids (delete_enrollments_where ?q s)) fks
          = filter (\<lambda>fk. onDelete fk \<noteq> Cascade \<and> user_referenced fk ids s) fks"
        by (rule filter_cong) (auto simp: referenced_after_cascade)
      show ?thesis
        unfolding step Cons same
        using True by (simp add: delete_enrollments_where_twice split: list.splits)
    next
      case ne: False
      with False show ?thesis
        by (simp add: apply_one_reference and_then_def Cons)
    qed
  qed
qed


lemma user_referenced_single:
  "uid \<in> set (map user_id (user s)) \<Longrightarrow>
     user_referenced fk (map user_id (filter (\<lambda>u. user_id u = uid) (user s))) s
       = user_referenced fk [uid] s"
  by (cases fk) (auto simp: image_iff)

lemma delete_user_eq:
  assumes "uid \<in> set (map user_id (user s))"
  shows "delete_user order uid s =
     (case filter (\<lambda>fk. onDelete fk \<noteq> Cascade \<and> user_referenced fk [uid] s)
             (order @ user_references) of
        [] \<Rightarrow> Inr (s\<lparr>enrollments := filter (\<lambda>e. enrollments_studentId e \<noteq> uid) (enrollments s),
                     user := filter (\<lambda>u. user_id u \<noteq> uid) (user s)\<rparr>)
      | fk # rest \<Rightarrow> Inl (ForeignKeyViolation fk))"
proof -
  let ?ids = "map user_id (filter (\<lambda>u. user_id u = uid) (user s))"
  have ids: "set ?ids = {uid}"
    using assms by auto
  have same: "filter (\<lambda>fk. onDelete fk \<noteq> Cascade \<and> user_referenced fk ?ids s)
                 (order @ user_references)
      = filter (\<lambda>fk. onDelete fk \<noteq> Cascade \<and> user_referenced fk [uid] s)
                 (order @ user_references)"
    by (rule filter_cong) (simp_all add: user_referenced_single [OF assms])
  have mem: "enrollments_studentId_fk \<in> set (order @ user_references)"
    by (simp add: user_references_def)
  show ?thesis
    unfolding delete_user_def delete_user_where_def Let_def apply_user_references_eq same
    using mem
    by (simp add: and_then_def delete_enrollments_where_def ids split: list.splits
          del: set_map set_filter set_append)
qed

lemma first_kept:
  assumes "filter P xs = x # rest"
  shows "P x"
proof -
  have "x \<in> set (filter P xs)" by (simp add: assms)
  then show ?thesis by simp
qed

lemma holds_back_cases:
  "onDelete fk \<noteq> Cascade \<and> user_referenced fk [uid] s \<Longrightarrow>
     (fk = session_userId_fk \<and> (\<exists>x \<in> set (session s). session_userId x = uid))
     \<or> (fk = account_userId_fk \<and> (\<exists>x \<in> set (account s). account_userId x = uid))
     \<or> (fk = classes_teacherId_fk \<and> (\<exists>c \<in> set (classes s). classes_teacherId c = uid))"
  by (cases fk) simp_all

lemma delete_user_blocked:
  assumes "uid \<in> set (map user_id (user s))"
      and "(\<exists>x \<in> set (session s). session_userId x = uid)
           \<or> (\<exists>x \<in> set (account s). account_userId x = uid)
           \<or> (\<exists>c \<in> set (classes s). classes_teacherId c = uid)"
  shows "\<exists>fk. delete_user order uid s = Inl (ForeignKeyViolation fk)
           \<and> ((fk = session_userId_fk \<and> (\<exists>x \<in> set (session s). session_userId x = uid))
              \<or> (fk = account_userId_fk \<and> (\<exists>x \<in> set (account s). account_userId x = uid))
              \<or> (fk = classes_teacherId_fk
                   \<and> (\<exists>c \<in> set (classes s). classes_teacherId c = uid)))"
proof -
  let ?P = "\<lambda>fk. onDelete fk \<noteq> Cascade \<and> user_referenced fk [uid] s"
  from assms(2) have "\<exists>fk \<in> set (order @ user_references). ?P fk"
    by (auto simp: user_references_def)
  then have "filter ?P (order @ user_references) \<noteq> []"
    unfolding filter_empty_conv by blast
  then obtain fk rest where f: "filter ?P (order @ user_references) = fk # rest"
    by (cases "filter ?P (order @ user_references)") auto
  then have "?P fk" by (rule first_kept)
  then have c: "(fk = session_userId_fk \<and> (\<exists>x \<in> set (session s). session_userId x = uid))
     \<or> (fk = account_userId_fk \<and> (\<exists>x \<in> set (account s). account_userId x = uid))
     \<or> (fk = classes_teacherId_fk \<and> (\<exists>c \<in> set (classes s). classes_teacherId c = uid))"
    by (rule holds_back_cases)
  have "delete_user order uid s = Inl (ForeignKeyViolation fk)"
    unfolding delete_user_eq [OF assms(1)] f by simp
  with c show ?thesis by blast
qed

lemma delete_user_free:
  assumes "uid \<in> set (map user_id (user s))"
      and "\<not> (\<exists>x \<in> set (session s). session_userId x = uid)"
      and "\<not> (\<exists>x \<in> set (account s). account_userId x = uid)"
      and "\<not> (\<exists>c \<in> set (classes s). classes_teacherId c = uid)"
  shows "delete_user order uid s =
     Inr (s\<lparr>enrollments := filter (\<lambda>e. enrollments_studentId e \<noteq> uid) (enrollments s),
            user := filter (\<lambda>u. user_id u \<noteq> uid) (user s)\<rparr>)"
proof -
  let ?P = "\<lambda>fk. onDelete fk \<noteq> Cascade \<and> user_referenced fk [uid] s"
  have "\<not> ?P fk" for fk
    using holds_back_cases [of fk uid s] assms(2-4) by blast
  then have "filter ?P (order @ user_references) = []"
    unfolding filter_empty_conv by blast
  then show ?thesis
    unfolding delete_user_eq [OF assms(1)] by simp
qed

lemmas delete_user_defs = delete_user_def delete_user_where_def user_references_def
  referential_def and_then_def delete_enrollments_where_def Let_def

text \<open>
  C2, as the code has it. For a user who exists and teaches no class, in whatever
  order the database checks the references: if a session or an account row refers to
  the user, the delete is rejected with the foreign-key violation of \<open>session.userId\<close>
  or of \<open>account.userId\<close> (these references declare no \<open>onDelete\<close>, so nothing
  cascades to them), of the one that is referenced when only one is; otherwise the
  delete succeeds, removes the user and every enrollment of the user as student.
  After a successful delete no session, account or enrollment row refers to the user.
\<close>

theorem delete_user_sessions_not_cascaded:
  assumes "uid \<in> set (map user_id (user s))"
      and "\<not> (\<exists>c \<in> set (classes s). classes_teacherId c = uid)"
  shows "((\<exists>x \<in> set (session s). session_userId x = uid)
            \<or> (\<exists>x \<in> set (account s). account_userId x = uid) \<longrightarrow>
          (delete_user order uid s = Inl (ForeignKeyViolation session_userId_fk)
             \<or> delete_user order uid s = Inl (ForeignKeyViolation account_userId_fk))
          \<and> (\<not> (\<exists>x \<in> set (account s). account_userId x = uid) \<longrightarrow>
               delete_user order uid s = Inl (ForeignKeyViolation session_userId_fk))
          \<and> (\<not> (\<exists>x \<in> set (session s). session_userId x = uid) \<longrightarrow>
               delete_user order uid s = Inl (ForeignKeyViolation account_userId_fk)))
     \<and> (\<not> (\<exists>x \<in> set (session s). session_userId x = uid)
            \<and> \<not> (\<exists>x \<in> set (account s). account_userId x = uid) \<longrightarrow>
          delete_user order uid s =
            Inr (s\<lparr>enrollments := filter (\<lambda>e. enrollments_studentId e \<noteq> uid) (enrollments s),
                   user := filter (\<lambda>u. user_id u \<noteq> uid) (user s)\<rparr>))
     \<and> (\<forall>s'. delete_user order uid s = Inr s' \<longrightarrow>
          uid \<notin> set (map session_userId (session s'))
          \<and> uid \<notin> set (map account_userId (account s'))
          \<and> uid \<notin> set (map enrollments_studentId (enrollments s'))
          \<and> uid \<notin> set (map user_id (user s')))"
proof (intro conjI impI allI)
  assume ref: "(\<exists>x \<in> set (session s). session_userId x = uid)
            \<or> (\<exists>x \<in> set (account s). account_userId x = uid)"
  then have "(\<exists>x \<in> set (session s). session_userId x = uid)
           \<or> (\<exists>x \<in> set (account s). account_userId x = uid)
           \<or> (\<exists>c \<in> set (classes s). classes_teacherId c = uid)"
    by blast
  from delete_user_blocked [OF assms(1) this, of order] assms(2)
  obtain fk where fk: "delete_user order uid s = Inl (ForeignKeyViolation fk)"
    "(fk = session_userId_fk \<and> (\<exists>x \<in> set (session s). session_userId x = uid))
     \<or> (fk = account_userId_fk \<and> (\<exists>x \<in> set (account s). account_userId x = uid))"
    by blast
  from fk show "delete_user order uid s = Inl (ForeignKeyViolation session_userId_fk)
             \<or> delete_user order uid s = Inl (ForeignKeyViolation account_userId_fk)"
    by blast
  show "delete_user order uid s = Inl (ForeignKeyViolation session_userId_fk)"
    if "\<not> (\<exists>x \<in> set (account s). account_userId x = uid)"
    using fk that by blast
  show "delete_user order uid s = Inl (ForeignKeyViolation account_userId_fk)"
    if "\<not> (\<exists>x \<in> set (session s). session_userId x = uid)"
    using fk that by blast
next
  assume "\<not> (\<exists>x \<in> set (session s). session_userId x = uid)
            \<and> \<not> (\<exists>x \<in> set (account s). account_userId x = uid)"
  then show "delete_user order uid s =
            Inr (s\<lparr>enrollments := filter (\<lambda>e. enrollments_studentId e \<noteq> uid) (enrollments s),
                   user := filter (\<lambda>u. user_id u \<noteq> uid) (user s)\<rparr>)"
    using delete_user_free [OF assms(1) _ _ assms(2)] by blast
next
  fix s'
  assume ok: "delete_user order uid s = Inr s'"
  have none: "\<not> ((\<exists>x \<in> set (session s). session_userId x = uid)
           \<or> (\<exists>x \<in> set (account s). account_userId x = uid)
           \<or> (\<exists>c \<in> set (classes s). classes_teacherId c = uid))"
  proof
    assume "(\<exists>x \<in> set (session s). session_userId x = uid)
           \<or> (\<exists>x \<in> set (account s). account_userId x = uid)
           \<or> (\<exists>c \<in> set (classes s). classes_teacherId c = uid)"
    from delete_user_blocked [OF assms(1) this, of order] ok show False by auto
  qed
  then have "delete_user order uid s =
     Inr (s\<lparr>enrollments := filter (\<lambda>e. enrollments_studentId e \<noteq> uid) (enrollments s),
            user := filter (\<lambda>u. user_id u \<noteq> uid) (user s)\<rparr>)"
    using delete_user_free [OF assms(1), of order] by blast
  with ok have s': "s' = s\<lparr>enrollments :=
          filter (\<lambda>e. enrollments_studentId e \<noteq> uid) (enrollments s),
        user := filter (\<lambda>u. user_id u \<noteq> uid) (user s)\<rparr>"
    by simp
  from none show "uid \<notin> set (map session_userId (session s'))"
    unfolding s' by auto
  from none show "uid \<notin> set (map account_userId (account s'))"
    unfolding s' by auto
  show "uid \<notin> set (map enrollments_studentId (enrollments s'))"
    unfolding s' by auto
  show "uid \<notin> set (map user_id (user s'))"
    unfolding s' by auto
qed

text \<open>
  The claim as stated fails: Alice teaches no class and has one session, and deleting
  her is rejected, her session still there.
\<close>

theorem delete_user_with_session_rejected:
  "map classes_teacherId (classes campus_logged_in) = [''t1'']
   \<and> map session_userId (session campus_logged_in) = [''u1'']
   \<and> delete_user [] ''u1'' campus_logged_in = Inl (ForeignKeyViolation session_userId_fk)
   \<and> map session_userId
        (session (store_after (delete_user [] ''u1'' campus_logged_in) campus_logged_in))
     = [''u1'']"
  by (simp add: example_defs delete_user_defs store_after_def)

theorem delete_user_sessions_not_cascaded_witness:
  "delete_user [] ''u1'' campus_enrolled = Inr (campus\<lparr>user := [user_of 0 bob]\<rparr>)
   \<and> enrollments (campus\<lparr>user := [user_of 0 bob]\<rparr>) = []
   \<and> delete_user [] ''u1'' campus_logged_in = Inl (ForeignKeyViolation session_userId_fk)"
proof -
  have h: "''u1'' \<in> set (map user_id (user campus_enrolled))"
    "\<not> (\<exists>c \<in> set (classes campus_enrolled). classes_teacherId c = ''u1'')"
    "\<not> (\<exists>x \<in> set (session campus_enrolled). session_userId x = ''u1'')"
    "\<not> (\<exists>x \<in> set (account campus_enrolled). account_userId x = ''u1'')"
    by (simp_all add: example_defs)
  have k: "''u1'' \<in> set (map user_id (user campus_logged_in))"
    "\<not> (\<exists>c \<in> set (classes campus_logged_in). classes_teacherId c = ''u1'')"
    "\<exists>x \<in> set (session campus_logged_in). session_userId x = ''u1''"
    "\<not> (\<exists>x \<in> set (account campus_logged_in). account_userId x = ''u1'')"
    by (simp_all add: example_defs)
  from delete_user_sessions_not_cascaded [OF h(1,2), of "[]"] h(3,4)
  have "delete_user [] ''u1'' campus_enrolled =
      Inr (campus_enrolled\<lparr>enrollments :=
             filter (\<lambda>e. enrollments_studentId e \<noteq> ''u1'') (enrollments campus_enrolled),
           user := filter (\<lambda>u. user_id u \<noteq> ''u1'') (user campus_enrolled)\<rparr>)"
    by blast
  then have a: "delete_user [] ''u1'' campus_enrolled = Inr (campus\<lparr>user := [user_of 0 bob]\<rparr>)"
    by (simp add: example_defs)
  from delete_user_sessions_not_cascaded [OF k(1,2), of "[]"] k(3,4)
  have b: "delete_user [] ''u1'' campus_logged_in = Inl (ForeignKeyViolation session_userId_fk)"
    by blast
  have c: "enrollments (campus\<lparr>user := [user_of 0 bob]\<rparr>) = []"
    by (simp add: example_defs)
  from a b c show ?thesis by blast
qed

text \<open>
  C3. For every department that exists and is referenced by at least one subject,
  deleting it fails with the foreign-key violation of \<open>subjects.departmentId\<close>
  (\<open>onDelete: restrict\<close>; the spec's HasDependentSubjects), and the store after the
  statement is the store before it.
\<close>

theorem delete_department_restrict:
  assumes "did \<in> set (map departments_id (departments s))"
      and "\<exists>r \<in> set (subjects s). subjects_departmentId r = did"
  shows "delete_department did s = Inl (ForeignKeyViolation subjects_departmentId_fk)
         \<and> store_after (delete_department did s) s = s"
  using assms
  by (simp add: delete_department_def delete_departments_where_def referential_def
        and_then_def store_after_def Let_def ids_of_existing del: set_map set_filter)

theorem delete_department_restrict_witness:
  "map departments_id (departments campus) = [1]
   \<and> map subjects_departmentId (subjects campus) = [1]
   \<and> delete_department 1 campus = Inl (ForeignKeyViolation subjects_departmentId_fk)
   \<and> store_after (delete_department 1 campus) campus = campus"
proof -
  have ids: "map departments_id (departments campus) = [1]"
    "map subjects_departmentId (subjects campus) = [1]"
    by (simp_all add: example_defs)
  have h: "1 \<in> set (map departments_id (departments campus))"
    "\<exists>r \<in> set (subjects campus). subjects_departmentId r = 1"
    by (simp_all add: example_defs)
  from delete_department_restrict [OF h] ids show ?thesis
    by blast
qed

text \<open>
  C4. Deleting a subject always succeeds, whatever refers to it. When the subject
  exists, the one statement removes the subject, every class of the subject and every
  enrollment in one of those classes, and leaves the other tables alone. The statement
  is a single step from the store before to the store after.
\<close>

theorem delete_subject_cascades:
  "\<exists>s'. delete_subject sid s = Inr s' \<and>
     (sid \<in> set (map subjects_id (subjects s)) \<longrightarrow>
        subjects s' = filter (\<lambda>r. subjects_id r \<noteq> sid) (subjects s) \<and>
        classes s' = filter (\<lambda>c. classes_subjectId c \<noteq> sid) (classes s) \<and>
        enrollments s' = filter (\<lambda>e. enrollments_classId e \<notin>
            set (map classes_id (filter (\<lambda>c. classes_subjectId c = sid) (classes s))))
            (enrollments s) \<and>
        user s' = user s \<and> session s' = session s \<and> account s' = account s \<and>
        verification s' = verification s \<and> departments s' = departments s)"
  by (simp add: delete_subject_def delete_subjects_where_eq ids_of_existing
        del: set_map set_filter)

theorem delete_subject_cascades_witness:
  "\<exists>s'. delete_subject 1 campus_enrolled = Inr s'
     \<and> subjects s' = [] \<and> classes s' = [] \<and> enrollments s' = []
     \<and> user s' = user campus \<and> departments s' = departments campus"
proof -
  have h: "1 \<in> set (map subjects_id (subjects campus_enrolled))"
    by (simp add: example_defs)
  from delete_subject_cascades [of 1 campus_enrolled] h
  obtain s' where s': "delete_subject 1 campus_enrolled = Inr s'"
      "subjects s' = filter (\<lambda>r. subjects_id r \<noteq> 1) (subjects campus_enrolled)"
      "classes s' = filter (\<lambda>c. classes_subjectId c \<noteq> 1) (classes campus_enrolled)"
      "enrollments s' = filter (\<lambda>e. enrollments_classId e \<notin>
          set (map classes_id (filter (\<lambda>c. classes_subjectId c = 1) (classes campus_enrolled))))
          (enrollments campus_enrolled)"
      "user s' = user campus_enrolled" "departments s' = departments campus_enrolled"
    by blast
  have "subjects s' = []" "classes s' = []" "enrollments s' = []"
    "user s' = user campus" "departments s' = departments campus"
    unfolding s' by (simp_all add: example_defs)
  with s'(1) show ?thesis by blast
qed




subsection \<open>Inserts\<close>

text \<open>
  C6, as the code has it. If no capacity is given the class is created with capacity
  50. If a capacity is given, the class is created with exactly that capacity whenever
  it fits the \<open>integer\<close> column, zero and negative values included: the schema has no
  positivity check. Only a capacity outside the column's range is refused, and then no
  class row is created. (The other columns are assumed well formed: lengths, a fresh id
  and invite code, an existing subject and teacher.)
\<close>

theorem insert_classes_capacity:
  assumes "integer (new_classes_subjectId v)"
      and "varchar 50 (new_classes_inviteCode v)"
      and "varchar 255 (new_classes_name v)"
      and "gen \<notin> set (map classes_id (classes s))"
      and "new_classes_inviteCode v \<notin> set (map classes_inviteCode (classes s))"
      and "new_classes_subjectId v \<in> set (map subjects_id (subjects s))"
      and "new_classes_teacherId v \<in> set (map user_id (user s))"
  shows "insert_classes gen now v s =
           (case new_classes_capacity v of
              None \<Rightarrow> Inr (s\<lparr>classes := classes s @ [classes_of gen now v]\<rparr>)
            | Some n \<Rightarrow>
                if integer n then Inr (s\<lparr>classes := classes s @ [classes_of gen now v]\<rparr>)
                else Inl NumericValueOutOfRange)
         \<and> classes_capacity (classes_of gen now v) =
           (case new_classes_capacity v of None \<Rightarrow> 50 | Some n \<Rightarrow> n)"
  using assms
  by (simp add: insert_classes_def violates_def classes_of_def or_default_def integer_def
        split: option.splits)

text \<open>
  The claim as stated fails: a class with capacity 0 is created.
\<close>

theorem zero_capacity_accepted:
  "insert_classes 2 0
     (algebra_class\<lparr>new_classes_inviteCode := ''inv2'', new_classes_capacity := Some 0\<rparr>) campus
   = Inr (campus\<lparr>classes := classes campus @
       [classes_of 2 0
         (algebra_class\<lparr>new_classes_inviteCode := ''inv2'', new_classes_capacity := Some 0\<rparr>)]\<rparr>)
   \<and> classes_capacity (classes_of 2 0
         (algebra_class\<lparr>new_classes_inviteCode := ''inv2'', new_classes_capacity := Some 0\<rparr>)) = 0"
  by (simp add: example_defs insert_classes_def violates_def varchar_def integer_def)

theorem insert_classes_capacity_witness:
  "insert_classes 2 0 (algebra_class\<lparr>new_classes_inviteCode := ''inv2''\<rparr>) campus
     = Inr (campus\<lparr>classes := classes campus @
         [classes_of 2 0 (algebra_class\<lparr>new_classes_inviteCode := ''inv2''\<rparr>)]\<rparr>)
   \<and> classes_capacity
        (classes_of 2 0 (algebra_class\<lparr>new_classes_inviteCode := ''inv2''\<rparr>)) = 50"
  using insert_classes_capacity [of "algebra_class\<lparr>new_classes_inviteCode := ''inv2''\<rparr>" 2 campus 0]
  by (simp add: example_defs varchar_def integer_def)

text \<open>
  C7. Department codes and subject codes are unique in their tables. An insert of a
  department whose code is already stored fails and the store stays as it was; when the
  new row fits its columns and its id is fresh, the failure is the unique violation of
  \<open>departments.code\<close> (the spec's DuplicateCode). The same holds for subjects and
  \<open>subjects.code\<close>. A table whose codes are distinct still has distinct codes after
  any insert.
\<close>

theorem duplicate_code_rejected:
  "(new_departments_code v \<in> set (map departments_code (departments s)) \<longrightarrow>
      (\<exists>e. insert_departments gen now v s = Inl e)
      \<and> store_after (insert_departments gen now v s) s = s
      \<and> (varchar 50 (new_departments_code v) \<and> varchar 255 (new_departments_name v)
           \<and> gen \<notin> set (map departments_id (departments s)) \<longrightarrow>
         insert_departments gen now v s = Inl (UniqueViolation departments_code_unique)))
   \<and> (new_subjects_code w \<in> set (map subjects_code (subjects s)) \<longrightarrow>
      (\<exists>e. insert_subjects gen now w s = Inl e)
      \<and> store_after (insert_subjects gen now w s) s = s
      \<and> (integer (new_subjects_departmentId w)
           \<and> varchar 255 (new_subjects_name w) \<and> varchar 50 (new_subjects_code w)
           \<and> gen \<notin> set (map subjects_id (subjects s)) \<longrightarrow>
         insert_subjects gen now w s = Inl (UniqueViolation subjects_code_unique)))
   \<and> (distinct (map departments_code (departments s)) \<longrightarrow>
        distinct (map departments_code (departments (store_after (insert_departments gen now v s) s))))
   \<and> (distinct (map subjects_code (subjects s)) \<longrightarrow>
        distinct (map subjects_code (subjects (store_after (insert_subjects gen now w s) s))))"
  by (simp add: insert_departments_def insert_subjects_def violates_def store_after_def
        departments_of_def subjects_of_def)

theorem duplicate_code_rejected_witness:
  "insert_departments 2 0 maths campus = Inl (UniqueViolation departments_code_unique)
   \<and> store_after (insert_departments 2 0 maths campus) campus = campus
   \<and> insert_subjects 2 0 algebra campus = Inl (UniqueViolation subjects_code_unique)
   \<and> store_after (insert_subjects 2 0 algebra campus) campus = campus
   \<and> distinct (map departments_code
         (departments (store_after (insert_departments 2 0 maths campus) campus)))
   \<and> distinct (map subjects_code
         (subjects (store_after (insert_subjects 2 0 algebra campus) campus)))"
proof -
  have d: "new_departments_code maths \<in> set (map departments_code (departments campus))"
    "varchar 50 (new_departments_code maths)" "varchar 255 (new_departments_name maths)"
    "2 \<notin> set (map departments_id (departments campus))"
    "distinct (map departments_code (departments campus))"
    by (simp_all add: example_defs varchar_def)
  have s: "new_subjects_code algebra \<in> set (map subjects_code (subjects campus))"
    "integer (new_subjects_departmentId algebra)"
    "varchar 255 (new_subjects_name algebra)" "varchar 50 (new_subjects_code algebra)"
    "2 \<notin> set (map subjects_id (subjects campus))"
    "distinct (map subjects_code (subjects campus))"
    by (simp_all add: example_defs varchar_def integer_def)
  from duplicate_code_rejected [of maths campus 2 0 algebra] d s show ?thesis
    by blast
qed

text \<open>
  C9. A successful insert of a user appends one row whose role is the role given, and
  \<open>student\<close> when none is given: a new user is a teacher or an admin only when the
  insert says so.
\<close>

theorem role_defaults_to_student:
  assumes "insert_user now v s = Inr s'"
  shows "\<exists>u. user s' = user s @ [u] \<and> user_id u = new_user_id v
           \<and> user_role u = (case new_user_role v of None \<Rightarrow> student | Some r \<Rightarrow> r)"
  using assms
  by (auto simp: insert_user_def user_of_def or_default_def split: if_splits option.splits)

theorem role_defaults_to_student_witness:
  "insert_user 0 alice empty_store = Inr (empty_store\<lparr>user := [user_of 0 alice]\<rparr>)
   \<and> (\<exists>u. user (empty_store\<lparr>user := [user_of 0 alice]\<rparr>) = user empty_store @ [u]
         \<and> user_id u = ''u1'' \<and> user_role u = student)"
proof -
  have ins: "insert_user 0 alice empty_store = Inr (empty_store\<lparr>user := [user_of 0 alice]\<rparr>)"
    by (simp add: insert_user_def violates_def empty_store_def)
  from role_defaults_to_student [OF ins] show ?thesis
    using ins by (simp add: alice_def)
qed

text \<open>
  C10. The user table has no unique constraint on \<open>email\<close>. An insert of a user with a
  fresh id succeeds whatever the email, also when a stored user has the same one; the
  only error an insert of a user can give is the violation of the primary key; and two
  inserts from the empty store give a table with two distinct users of the same email.
\<close>

theorem user_email_not_unique:
  "(new_user_id v \<notin> set (map user_id (user s)) \<longrightarrow>
      insert_user now v s = Inr (s\<lparr>user := user s @ [user_of now v]\<rparr>))
   \<and> (\<forall>e. insert_user now v s = Inl e \<longrightarrow> e = UniqueViolation user_pkey)
   \<and> (\<exists>a b s1 s2. insert_user now a empty_store = Inr s1 \<and> insert_user now b s1 = Inr s2
         \<and> user s2 = [user_of now a, user_of now b]
         \<and> user_id (user_of now a) \<noteq> user_id (user_of now b)
         \<and> user_email (user_of now a) = user_email (user_of now b))"
proof (intro conjI)
  show "new_user_id v \<notin> set (map user_id (user s)) \<longrightarrow>
      insert_user now v s = Inr (s\<lparr>user := user s @ [user_of now v]\<rparr>)"
    by (simp add: insert_user_def violates_def)
  show "\<forall>e. insert_user now v s = Inl e \<longrightarrow> e = UniqueViolation user_pkey"
    by (auto simp: insert_user_def split: if_splits)
  have "insert_user now alice empty_store = Inr (empty_store\<lparr>user := [user_of now alice]\<rparr>)"
    by (simp add: insert_user_def violates_def empty_store_def)
  moreover have "insert_user now (alice\<lparr>new_user_id := ''u2''\<rparr>)
                   (empty_store\<lparr>user := [user_of now alice]\<rparr>)
                 = Inr (empty_store\<lparr>user := [user_of now alice,
                     user_of now (alice\<lparr>new_user_id := ''u2''\<rparr>)]\<rparr>)"
    by (simp add: insert_user_def violates_def empty_store_def user_of_def alice_def)
  ultimately show "\<exists>a b s1 s2. insert_user now a empty_store = Inr s1
         \<and> insert_user now b s1 = Inr s2
         \<and> user s2 = [user_of now a, user_of now b]
         \<and> user_id (user_of now a) \<noteq> user_id (user_of now b)
         \<and> user_email (user_of now a) = user_email (user_of now b)"
    by (intro exI [of _ alice] exI [of _ "alice\<lparr>new_user_id := ''u2''\<rparr>"]
          exI [of _ "empty_store\<lparr>user := [user_of now alice]\<rparr>"]
          exI [of _ "empty_store\<lparr>user := [user_of now alice,
                     user_of now (alice\<lparr>new_user_id := ''u2''\<rparr>)]\<rparr>"])
       (simp add: user_of_def alice_def)
qed

theorem user_email_not_unique_witness:
  "insert_user 0 (alice\<lparr>new_user_id := ''u2''\<rparr>) campus
     = Inr (campus\<lparr>user := user campus @ [user_of 0 (alice\<lparr>new_user_id := ''u2''\<rparr>)]\<rparr>)
   \<and> map user_email (user campus @ [user_of 0 (alice\<lparr>new_user_id := ''u2''\<rparr>)])
     = [''alice@example.org'', ''bob@example.org'', ''alice@example.org'']"
  using user_email_not_unique [of "alice\<lparr>new_user_id := ''u2''\<rparr>" campus 0]
  by (simp add: example_defs)


section \<open>Properties of the request pipeline\<close>

lemma take_take_eq:
  "take n q = a \<Longrightarrow> take k q = b \<Longrightarrow> n \<le> k \<Longrightarrow> take n b = a"
  by (auto simp: min_def)

text \<open>No path is both below \<open>/api/subjects\<close> and an authentication route.\<close>

lemma subjects_mount_not_auth:
  assumes "mount_match ''/api/subjects'' p"
  shows "\<not> route_match ''/api/auth/*splat'' p"
proof
  assume "route_match ''/api/auth/*splat'' p"
  then have a: "take (length ''/api/auth/'') (map lower p) = ''/api/auth/''"
    by (simp add: route_match_def lower_def Let_def)
  from assms have "map lower p = ''/api/subjects''
      \<or> take (length ''/api/subjects/'') (map lower p) = ''/api/subjects/''"
    by (simp add: mount_match_def lower_def Let_def)
  then show False
  proof
    assume "map lower p = ''/api/subjects''"
    with a show False by simp
  next
    assume "take (length ''/api/subjects/'') (map lower p) = ''/api/subjects/''"
    with a have "take (length ''/api/auth/'') ''/api/subjects/'' = ''/api/auth/''"
      by (rule take_take_eq) simp_all
    then show False by simp
  qed
qed

text \<open>
  The application of \<open>src/index.ts\<close> has no authentication route: every request,
  also one to \<open>/api/auth/...\<close>, runs CORS, the JSON parser and the security middleware
  in that order, and the authentication handler never runs.
\<close>

lemma dispatch_app_index:
  "dispatch m app_index r =
     Cors # (case cors m r of Responds \<Rightarrow> [] | CallsNext \<Rightarrow>
       JsonParser # (case express_json m r of Responds \<Rightarrow> [] | CallsNext \<Rightarrow>
         SecurityMiddleware # (case securityMiddleware m r of Responds \<Rightarrow> [] | CallsNext \<Rightarrow>
           (if mount_match ''/api/subjects'' (req_path r) then [SubjectsRouter] else []))))"
  by (simp add: app_index_def split: handled.splits)

lemma app_index_no_auth_handler: "AuthHandler \<notin> set (dispatch m app_index r)"
  by (simp add: dispatch_app_index split: handled.splits)

lemma dispatch_app_auth:
  "route_match ''/api/auth/*splat'' (req_path r) \<Longrightarrow>
     dispatch m app r =
       (case cors m r of
          Responds \<Rightarrow> [Cors]
        | CallsNext \<Rightarrow>
            if decodable (wildcard_part ''/api/auth/*splat'' (req_path r))
            then [Cors, AuthHandler] else [Cors])"
  by (simp add: app_def split: handled.splits)

lemma dispatch_app_other:
  "\<not> route_match ''/api/auth/*splat'' (req_path r) \<Longrightarrow>
     dispatch m app r = dispatch m app_index r"
  by (simp add: app_def app_index_def split: handled.splits)

text \<open>
  C8, as the code has it. In the entry file that mounts the authentication handler, a
  request whose path matches \<open>/api/auth/*splat\<close> never reaches the JSON parser, the
  security middleware or the subjects router: it runs CORS and then, if CORS passes it
  on and the wildcard part of the path can be percent-decoded, the authentication
  handler; when the wildcard part cannot be decoded no handler runs after CORS. In
  \<open>src/index.ts\<close>, which mounts no authentication handler, the same request runs
  CORS, the JSON parser and the security middleware, and never an authentication
  handler. In both files a request below \<open>/api/subjects\<close> runs CORS, the JSON
  parser, the security middleware and the subjects router in that order, each only if
  the one before passed the request on.
\<close>

theorem auth_route_short_circuits:
  "(route_match ''/api/auth/*splat'' (req_path r) \<longrightarrow>
      dispatch m app r =
        (case cors m r of
           Responds \<Rightarrow> [Cors]
         | CallsNext \<Rightarrow>
             if decodable (wildcard_part ''/api/auth/*splat'' (req_path r))
             then [Cors, AuthHandler] else [Cors])
      \<and> JsonParser \<notin> set (dispatch m app r)
      \<and> SecurityMiddleware \<notin> set (dispatch m app r)
      \<and> SubjectsRouter \<notin> set (dispatch m app r)
      \<and> dispatch m app_index r =
          Cors # (case cors m r of Responds \<Rightarrow> [] | CallsNext \<Rightarrow>
            JsonParser # (case express_json m r of Responds \<Rightarrow> [] | CallsNext \<Rightarrow>
              [SecurityMiddleware]))
      \<and> AuthHandler \<notin> set (dispatch m app_index r))
   \<and> (mount_match ''/api/subjects'' (req_path r) \<longrightarrow>
      dispatch m app r =
        Cors # (case cors m r of Responds \<Rightarrow> [] | CallsNext \<Rightarrow>
          JsonParser # (case express_json m r of Responds \<Rightarrow> [] | CallsNext \<Rightarrow>
            SecurityMiddleware # (case securityMiddleware m r of Responds \<Rightarrow> []
              | CallsNext \<Rightarrow> [SubjectsRouter])))
      \<and> dispatch m app_index r = dispatch m app r)"
proof (intro conjI impI)
  assume auth: "route_match ''/api/auth/*splat'' (req_path r)"
  show "dispatch m app r =
        (case cors m r of
           Responds \<Rightarrow> [Cors]
         | CallsNext \<Rightarrow>
             if decodable (wildcard_part ''/api/auth/*splat'' (req_path r))
             then [Cors, AuthHandler] else [Cors])"
    by (rule dispatch_app_auth [OF auth])
  show "JsonParser \<notin> set (dispatch m app r)"
    by (simp add: dispatch_app_auth [OF auth] split: handled.splits)
  show "SecurityMiddleware \<notin> set (dispatch m app r)"
    by (simp add: dispatch_app_auth [OF auth] split: handled.splits)
  show "SubjectsRouter \<notin> set (dispatch m app r)"
    by (simp add: dispatch_app_auth [OF auth] split: handled.splits)
  from auth have "\<not> mount_match ''/api/subjects'' (req_path r)"
    using subjects_mount_not_auth by blast
  then show "dispatch m app_index r =
          Cors # (case cors m r of Responds \<Rightarrow> [] | CallsNext \<Rightarrow>
            JsonParser # (case express_json m r of Responds \<Rightarrow> [] | CallsNext \<Rightarrow>
              [SecurityMiddleware]))"
    by (simp add: dispatch_app_index split: handled.splits)
  show "AuthHandler \<notin> set (dispatch m app_index r)"
    by (rule app_index_no_auth_handler)
next
  assume sub: "mount_match ''/api/subjects'' (req_path r)"
  then have "\<not> route_match ''/api/auth/*splat'' (req_path r)"
    by (rule subjects_mount_not_auth)
  then have same: "dispatch m app r = dispatch m app_index r"
    by (rule dispatch_app_other)
  with sub show "dispatch m app r =
        Cors # (case cors m r of Responds \<Rightarrow> [] | CallsNext \<Rightarrow>
          JsonParser # (case express_json m r of Responds \<Rightarrow> [] | CallsNext \<Rightarrow>
            SecurityMiddleware # (case securityMiddleware m r of Responds \<Rightarrow> []
              | CallsNext \<Rightarrow> [SubjectsRouter])))"
    by (simp add: dispatch_app_index)
  from same show "dispatch m app_index r = dispatch m app r"
    by simp
qed

text \<open>
  The claim as stated fails twice: in \<open>src/index.ts\<close> a request to
  \<open>/api/auth/sign-in/email\<close> runs the JSON parser and the security middleware and no
  authentication handler, and in the other entry file a request to \<open>/api/auth/%zz\<close>
  matches the route and is not handed to the authentication handler.
\<close>

theorem auth_route_not_always_handled:
  "route_match ''/api/auth/*splat'' ''/api/auth/sign-in/email''
   \<and> dispatch all_pass app_index
        \<lparr>req_method = ''POST'', req_path = ''/api/auth/sign-in/email''\<rparr>
     = [Cors, JsonParser, SecurityMiddleware]
   \<and> route_match ''/api/auth/*splat'' ''/api/auth/%zz''
   \<and> dispatch all_pass app \<lparr>req_method = ''GET'', req_path = ''/api/auth/%zz''\<rparr> = [Cors]"
  by (simp add: app_def app_index_def all_pass_def route_match_def mount_match_def
        wildcard_part_def lower_def hex_digit_def)

theorem auth_route_short_circuits_witness:
  "dispatch all_pass app \<lparr>req_method = ''POST'', req_path = ''/api/auth/sign-in/email''\<rparr>
     = [Cors, AuthHandler]
   \<and> dispatch all_pass app \<lparr>req_method = ''GET'', req_path = ''/api/subjects/7''\<rparr>
     = [Cors, JsonParser, SecurityMiddleware, SubjectsRouter]
   \<and> dispatch all_pass app_index \<lparr>req_method = ''GET'', req_path = ''/api/subjects/7''\<rparr>
     = [Cors, JsonParser, SecurityMiddleware, SubjectsRouter]"
proof -
  let ?a = "\<lparr>req_method = ''POST'', req_path = ''/api/auth/sign-in/email''\<rparr>"
  let ?b = "\<lparr>req_method = ''GET'', req_path = ''/api/subjects/7''\<rparr>"
  have a: "route_match ''/api/auth/*splat'' (req_path ?a)"
    "decodable (wildcard_part ''/api/auth/*splat'' (req_path ?a))"
    by (simp_all add: route_match_def wildcard_part_def lower_def)
  have b: "mount_match ''/api/subjects'' (req_path ?b)"
    by (simp add: mount_match_def lower_def)
  from auth_route_short_circuits [of ?a all_pass] a
  have "dispatch all_pass app ?a = [Cors, AuthHandler]"
    by (simp add: all_pass_def)
  moreover from auth_route_short_circuits [of ?b all_pass] b
  have "dispatch all_pass app ?b = [Cors, JsonParser, SecurityMiddleware, SubjectsRouter]
    \<and> dispatch all_pass app_index ?b = dispatch all_pass app ?b"
    by (simp add: all_pass_def)
  ultimately show ?thesis by simp
qed

end
